theory Spec2Isabelle
  imports Main "HOL-Library.Sublist"
begin

section \<open>Python values shared by the models\<close>

text \<open>
  Exceptions of the interpreter and of \<^verbatim>\<open>business/exception.py\<close> are values.
  A function of the source that may raise returns a sum, \<open>Inl\<close> carrying the exception.
\<close>

datatype py_error = IndexError

text \<open>
  \<^verbatim>\<open>items[:k]\<close> for a Python integer \<open>k\<close>: a negative bound counts from the end and
  is clamped at the start of the list.
\<close>

definition slice_to :: "'a list \<Rightarrow> int \<Rightarrow> 'a list" where
  "slice_to items k =
     (if k < 0 then take (nat (max 0 (int (length items) + k))) items
      else take (nat k) items)"

text \<open>
  \<^verbatim>\<open>xs[i:j]\<close> for Python integers: each bound is shifted by the length when negative
  and clamped into \<open>0 .. len\<close>; the slice is empty when the bounds cross.
\<close>

definition clamp_index :: "nat \<Rightarrow> int \<Rightarrow> nat" where
  "clamp_index n k = (if k < 0 then nat (max 0 (int n + k)) else min (nat k) n)"

definition slice :: "'a list \<Rightarrow> int \<Rightarrow> int \<Rightarrow> 'a list" where
  "slice xs i j =
     (let a = clamp_index (length xs) i; b = clamp_index (length xs) j
      in take (b - a) (drop a xs))"

text \<open>
  \<^verbatim>\<open>str.lower\<close> on the ASCII letters, which is all the station and city names of the
  remote service use; a string is a list of characters.
\<close>

definition lower_char :: "char \<Rightarrow> char" where
  "lower_char c =
     (let n = (of_char c :: nat) in if 65 \<le> n \<and> n \<le> 90 then char_of (n + 32) else c)"

definition lower :: "string \<Rightarrow> string" where
  "lower s = map lower_char s"

text \<open>\<^verbatim>\<open>s.startswith(p)\<close>.\<close>

definition startswith :: "string \<Rightarrow> string \<Rightarrow> bool" where
  "startswith s p = prefix p s"

section \<open>models.py\<close>

record boarding_point =
  bp_id :: int
  bp_name :: string
  bp_time :: string
  bp_date :: string

text \<open>
  \<^verbatim>\<open>Trip.find_boarding_point\<close>. The generator handed to \<^verbatim>\<open>next(..., None)\<close> yields the
  boarding points whose lowered name starts with the lowered city, so \<^verbatim>\<open>next\<close> is the
  first of them or \<^verbatim>\<open>None\<close>. An instance of the dataclass is always truthy, so
  \<^verbatim>\<open>not boarding_point\<close> holds exactly for \<^verbatim>\<open>None\<close>; then \<^verbatim>\<open>self.boarding_points[0]\<close>
  is read, which raises \<^verbatim>\<open>IndexError\<close> on an empty list. The declared result type is
  \<^verbatim>\<open>Optional[BoardingPoint]\<close>.
\<close>

definition name_matches :: "string \<Rightarrow> boarding_point \<Rightarrow> bool" where
  "name_matches from_city bp = startswith (lower (bp_name bp)) (lower from_city)"

definition find_boarding_point ::
  "boarding_point list \<Rightarrow> string \<Rightarrow> py_error + boarding_point option" where
  "find_boarding_point boarding_points from_city =
     (case find (name_matches from_city) boarding_points of
        None \<Rightarrow>
          (case boarding_points of
             [] \<Rightarrow> Inl IndexError
           | first # _ \<Rightarrow> Inr (Some first))
      | Some boarding_point \<Rightarrow> Inr (Some boarding_point))"

section \<open>business/booking\_service.py\<close>

text \<open>
  \<^verbatim>\<open>RailwayBookingService._adjust_list\<close>: pad with the default when the list is shorter
  than the target, otherwise slice to the target.
\<close>

definition adjust_list :: "'a list \<Rightarrow> int \<Rightarrow> 'a \<Rightarrow> 'a list" where
  "adjust_list items target_length default_value =
     (if int (length items) < target_length
      then items @ replicate (nat (target_length - int (length items))) default_value
      else slice_to items target_length)"

section \<open>models.py: the seat map and the selection of a group\<close>

record seat =
  seat_number :: string
  ticket_id :: int
  is_available :: bool
  is_hidden :: bool
  ticket_type :: int

definition is_aisle :: "seat \<Rightarrow> bool" where
  "is_aisle s = (seat_number s = [])"

record floor =
  floor_number :: int
  seats :: "seat list list"
  floor_name :: string
  seat_availability :: bool

record seat_layout =
  trip_id :: int
  trip_route_id :: int
  floors :: "floor list"

definition available_floors :: "seat_layout \<Rightarrow> floor list" where
  "available_floors layout = filter seat_availability (floors layout)"

text \<open>
  The test of the inner loop of \<^verbatim>\<open>Floor.find_adjacent_seats_pairs\<close>:
  \<^verbatim>\<open>not seat.is_aisle() and seat.is_available\<close>.
\<close>

definition selectable :: "seat \<Rightarrow> bool" where
  "selectable s = (\<not> is_aisle s \<and> is_available s)"

text \<open>
  The body of the outer loop, for one row: the row is first filtered down to
  \<^verbatim>\<open>available_seats\<close>, and then \<^verbatim>\<open>available_seats[i : i + adjacency]\<close> is yielded for
  every \<^verbatim>\<open>i\<close> in \<^verbatim>\<open>range(len(available_seats) - adjacency + 1)\<close>. The windows slide over
  the filtered list, not over the row.
\<close>

definition row_groups :: "seat list \<Rightarrow> int \<Rightarrow> seat list list" where
  "row_groups row adjacency =
     (let available_seats = filter selectable row
      in map (\<lambda>i. slice available_seats (int i) (int i + adjacency))
             [0 ..< nat (int (length available_seats) - adjacency + 1)])"

text \<open>The generator, collected into a list as \<^verbatim>\<open>list(...)\<close> does.\<close>

definition find_adjacent_seats_pairs :: "floor \<Rightarrow> int \<Rightarrow> seat list list" where
  "find_adjacent_seats_pairs fl adjacency =
     concat (map (\<lambda>row. row_groups row adjacency) (seats fl))"

text \<open>
  \<^verbatim>\<open>random.choice(seq)\<close> raises \<^verbatim>\<open>IndexError\<close> on an empty sequence and otherwise returns
  the element at an index below the length. The random draw is an argument: every
  natural number \<open>r\<close> stands for the draw \<open>r mod len\<close>, so each outcome of the source is
  the value at some \<open>r\<close>.
\<close>

definition choice :: "nat \<Rightarrow> 'a list \<Rightarrow> py_error + 'a" where
  "choice r seq = (if seq = [] then Inl IndexError else Inr (seq ! (r mod length seq)))"

text \<open>
  \<^verbatim>\<open>SeatLayout.find_random_adjacent_seats\<close>: a floor is drawn among the available floors,
  then a group among the groups of that floor; \<^verbatim>\<open>IndexError\<close> from either draw is caught
  and the empty list returned.
\<close>

definition find_random_adjacent_seats ::
  "seat_layout \<Rightarrow> int \<Rightarrow> nat \<Rightarrow> nat \<Rightarrow> seat list" where
  "find_random_adjacent_seats layout adjacency r_floor r_group =
     (case choice r_floor (available_floors layout) of
        Inl IndexError \<Rightarrow> []
      | Inr fl \<Rightarrow>
          (case choice r_group (find_adjacent_seats_pairs fl adjacency) of
             Inl IndexError \<Rightarrow> []
           | Inr chosen \<Rightarrow> chosen))"

text \<open>
  The notion the specification uses for a row, written after its words and used only to
  compare the code with it: the length of the longest run of consecutive seats of the
  row that are all non-aisle and available.
\<close>

fun spec_longest_run :: "seat list \<Rightarrow> nat" where
  "spec_longest_run [] = 0"
| "spec_longest_run (s # row) =
     max (length (takeWhile selectable (s # row))) (spec_longest_run row)"

section \<open>Remote responses and exceptions\<close>

record passenger =
  p_name :: string
  p_email :: string
  p_mobile :: string
  p_gender :: string
  p_type :: string

text \<open>
  The body of a response, as far as the code reads it: nothing (a request that raised,
  such as a timeout), text that is not JSON, a JSON object whose
  \<^verbatim>\<open>error.messages\<close> renders as the given string, or a JSON object holding a seat layout.
\<close>

datatype payload = NoBody | TextBody string | ErrorBody string | LayoutBody seat_layout

record api_response =
  success :: bool
  data :: payload
  error_message :: "string option"
  status_code :: "int option"

datatype exn =
    SeatAlreadyReservedException
  | UnauthorizedException api_response
  | OrderLimitExceededForTheDayException api_response
  | MultipleOrderAttemptException api_response
  | ReservationFailedException api_response
  | OtherException string

section \<open>business/trip\_repository.py\<close>

text \<open>
  \<^verbatim>\<open>RailwayTripRepository.get_seat_layout\<close>, from the response of the remote call. On a
  failed response other than 401 or 403 the code calls \<^verbatim>\<open>response.data.get\<close>, which
  raises \<^verbatim>\<open>AttributeError\<close> unless the body is a JSON object.
\<close>

definition get_seat_layout :: "api_response \<Rightarrow> exn + seat_layout" where
  "get_seat_layout response =
     (if \<not> success response then
        (if status_code response = Some 401 \<or> status_code response = Some 403
         then Inl (UnauthorizedException response)
         else
           (case data response of
              ErrorBody messages \<Rightarrow>
                (if status_code response = Some 422
                    \<and> sublist ''orderlimitexceeded'' (lower messages)
                 then Inl (OrderLimitExceededForTheDayException response)
                 else if status_code response = Some 422
                    \<and> sublist ''multiple order attempt'' (lower messages)
                 then Inl (MultipleOrderAttemptException response)
                 else Inl (OtherException ''Failed to get seat layout''))
            | LayoutBody _ \<Rightarrow> Inl (OtherException ''Failed to get seat layout'')
            | _ \<Rightarrow> Inl (OtherException ''AttributeError'')))
      else
        (case data response of
           LayoutBody layout \<Rightarrow> Inr layout
         | _ \<Rightarrow> Inl (OtherException ''KeyError'')))"

section \<open>business/seat\_service.py\<close>

text \<open>
  \<^verbatim>\<open>RailwaySeatService.reserve_seats\<close>. The remote service is a function from the ticket
  id to the response of \<^verbatim>\<open>reserve_seat\<close> (which never raises: \<^verbatim>\<open>make_request\<close> turns every
  exception into a failed response). \<^verbatim>\<open>asyncio.gather\<close> returns the responses in the order
  of the seats. The exception raised when some reservation failed carries
  \<^verbatim>\<open>responses[0]\<close>.
\<close>

definition seat_service_reserve_seats ::
  "(int \<Rightarrow> api_response) \<Rightarrow> seat list \<Rightarrow> exn + bool" where
  "seat_service_reserve_seats remote seats_to_reserve =
     (let responses = map (\<lambda>s. remote (ticket_id s)) seats_to_reserve;
          failed_reservations =
            map (\<lambda>(s, response). (seat_number s, error_message response))
              (filter (\<lambda>(s, response). \<not> success response)
                 (zip seats_to_reserve responses))
      in if failed_reservations \<noteq> [] then Inl (ReservationFailedException (responses ! 0))
         else Inr True)"

section \<open>application/seat\_reservation\_controller.py\<close>

datatype net_call = GetSeatLayout | ReserveSeat int

text \<open>The dictionary a worker puts on the result queue (the trip is the same for all).\<close>

record reservation =
  r_ticket_ids :: "int list"
  r_process_id :: int
  r_selected_seats :: "seat list"
  r_passengers :: "passenger list"

text \<open>
  What the processes share and what an observer sees: the flag \<^verbatim>\<open>is_reserved\<close>, the
  result queue, the requests sent to the remote service, and the pauses taken
  (milliseconds).
\<close>

record world =
  is_reserved :: bool
  result_queue :: "reservation list"
  calls :: "net_call list"
  slept_ms :: "nat list"

text \<open>
  What one attempt of a worker meets: the response to the seat layout request, the
  responses to the reservation requests, the outcome of \<^verbatim>\<open>_prepare_passengers_async\<close>
  (which reads the configuration only and may raise \<^verbatim>\<open>ValueError\<close>), and the two random
  draws.
\<close>

record env =
  seat_layout_response :: api_response
  reserve_seat_response :: "int \<Rightarrow> api_response"
  prepared_passengers :: "exn + passenger list"
  draw_floor :: nat
  draw_group :: nat

text \<open>
  \<^verbatim>\<open>find_seat_layout_and_passengers\<close>: the flag is read first and
  \<^verbatim>\<open>SeatAlreadyReservedException\<close> raised when it is set, before anything is requested.
  Otherwise \<^verbatim>\<open>asyncio.gather\<close> starts the layout request and then the preparation of the
  passengers, which completes without suspending, so its exception is the first.
\<close>

definition find_seat_layout_and_passengers ::
  "env \<Rightarrow> world \<Rightarrow> (exn + seat_layout \<times> passenger list) \<times> world" where
  "find_seat_layout_and_passengers e w =
     (if is_reserved w then (Inl SeatAlreadyReservedException, w)
      else
        (let w' = w\<lparr>calls := calls w @ [GetSeatLayout]\<rparr>
         in case prepared_passengers e of
              Inl err \<Rightarrow> (Inl err, w')
            | Inr passengers \<Rightarrow>
                (case get_seat_layout (seat_layout_response e) of
                   Inl err \<Rightarrow> (Inl err, w')
                 | Inr layout \<Rightarrow> (Inr (layout, passengers), w'))))"

text \<open>
  \<^verbatim>\<open>SeatReservationController.reserve_seats\<close>, run by one process without interference:
  read the flag (\<^verbatim>\<open>None\<close> when set), reserve the seats, set the flag, return the seats,
  the passengers and the ticket ids. The line
  \<^verbatim>\<open>with self._reservation_lock:\<close> is a comment in the source, so no lock is taken.
\<close>

definition reserve_seats ::
  "env \<Rightarrow> seat list \<Rightarrow> passenger list \<Rightarrow> world
     \<Rightarrow> (exn + (seat list \<times> passenger list \<times> int list) option) \<times> world" where
  "reserve_seats e selected_seats passengers w =
     (if is_reserved w then (Inr None, w)
      else
        (let w' = w\<lparr>calls := calls w @ map (\<lambda>s. ReserveSeat (ticket_id s)) selected_seats\<rparr>
         in case seat_service_reserve_seats (reserve_seat_response e) selected_seats of
              Inl err \<Rightarrow> (Inl err, w')
            | Inr _ \<Rightarrow>
                (Inr (Some (selected_seats, passengers, map ticket_id selected_seats)),
                 w'\<lparr>is_reserved := True\<rparr>)))"

section \<open>application/booking\_worker.py\<close>

datatype attempt = Returned | Raised exn

text \<open>
  \<^verbatim>\<open>process_booking\<close>, one attempt. The value returned by \<^verbatim>\<open>controller.reserve_seats\<close> is
  not looked at: the result is put on the queue whenever no exception was raised.
  Closing the client in \<^verbatim>\<open>finally\<close> sends nothing.
\<close>

definition process_booking :: "int \<Rightarrow> env \<Rightarrow> world \<Rightarrow> attempt \<times> world" where
  "process_booking process_id e w =
     (case find_seat_layout_and_passengers e w of
        (Inl err, w1) \<Rightarrow> (Raised err, w1)
      | (Inr (layout, passengers), w1) \<Rightarrow>
          (let selected_seats =
                 find_random_adjacent_seats layout (int (length passengers))
                   (draw_floor e) (draw_group e)
           in if length selected_seats = 0 then (Returned, w1)
              else
                (case reserve_seats e selected_seats passengers w1 of
                   (Inl err, w2) \<Rightarrow> (Raised err, w2)
                 | (Inr _, w2) \<Rightarrow>
                     (Returned,
                      w2\<lparr>result_queue := result_queue w2 @
                           [\<lparr>r_ticket_ids = map ticket_id selected_seats,
                             r_process_id = process_id,
                             r_selected_seats = selected_seats,
                             r_passengers = passengers\<rparr>]\<rparr>))))"

datatype worker_exit = SysExit int

text \<open>
  The four \<^verbatim>\<open>except\<close> clauses of the worker's loop, in the order of the source; each logs
  and calls \<^verbatim>\<open>sys.exit(0)\<close>. The last one catches every other \<^verbatim>\<open>Exception\<close>.
\<close>

fun handle_exception :: "exn \<Rightarrow> worker_exit" where
  "handle_exception SeatAlreadyReservedException = SysExit 0"
| "handle_exception (UnauthorizedException r) = SysExit 0"
| "handle_exception (ReservationFailedException r) = SysExit 0"
| "handle_exception e = SysExit 0"

text \<open>
  The loop \<^verbatim>\<open>while True\<close> of \<^verbatim>\<open>booking_worker\<close>, with fuel: \<open>None\<close> says the worker is still
  looping when the fuel is spent. The \<open>k\<close>-th attempt meets \<open>envs k\<close>. After an attempt that
  raised nothing the worker sleeps \<^verbatim>\<open>0.1\<close> seconds and starts the next attempt.
\<close>

fun booking_worker ::
  "nat \<Rightarrow> int \<Rightarrow> (nat \<Rightarrow> env) \<Rightarrow> nat \<Rightarrow> world \<Rightarrow> worker_exit option \<times> world" where
  "booking_worker 0 process_id envs k w = (None, w)"
| "booking_worker (Suc fuel) process_id envs k w =
     (case process_booking process_id (envs k) w of
        (Raised err, w') \<Rightarrow> (Some (handle_exception err), w')
      | (Returned, w') \<Rightarrow>
          booking_worker fuel process_id envs (Suc k)
            (w'\<lparr>slept_ms := slept_ms w' @ [100]\<rparr>))"

section \<open>Processes interleaving in the reservation\<close>

text \<open>
  The workers are operating system processes sharing the flag. Inside
  \<^verbatim>\<open>SeatReservationController.reserve_seats\<close> a process performs three actions on it, each
  atomic, with nothing holding the others back in between since the lock is not taken:
  the read of the flag (\<open>AtCheck\<close>), the awaited reservation (\<open>AtReserve\<close>) and the write of
  the flag (\<open>AtSet\<close>). A process ends as \<open>Won\<close> (it set the flag and returns the reservation),
  \<open>Lost\<close> (it read a set flag and returns \<^verbatim>\<open>None\<close>) or \<open>Failed\<close> (the reservation raised).
  A schedule lists which process moves next.
\<close>

datatype rpc = AtCheck | AtReserve | AtSet | Won | Lost | Failed

record race =
  claimed :: bool
  pcs :: "rpc list"

definition race_step :: "(nat \<Rightarrow> bool) \<Rightarrow> nat \<Rightarrow> race \<Rightarrow> race" where
  "race_step remote_ok p r =
     (if p < length (pcs r) then
        (case pcs r ! p of
           AtCheck \<Rightarrow> r\<lparr>pcs := (pcs r)[p := (if claimed r then Lost else AtReserve)]\<rparr>
         | AtReserve \<Rightarrow> r\<lparr>pcs := (pcs r)[p := (if remote_ok p then AtSet else Failed)]\<rparr>
         | AtSet \<Rightarrow> r\<lparr>claimed := True, pcs := (pcs r)[p := Won]\<rparr>
         | _ \<Rightarrow> r)
      else r)"

definition race_run :: "(nat \<Rightarrow> bool) \<Rightarrow> nat list \<Rightarrow> race \<Rightarrow> race" where
  "race_run remote_ok schedule r = fold (race_step remote_ok) schedule r"

definition race_start :: "nat \<Rightarrow> race" where
  "race_start n = \<lparr>claimed = False, pcs = replicate n AtCheck\<rparr>"

definition winners :: "race \<Rightarrow> nat list" where
  "winners r = filter (\<lambda>p. pcs r ! p = Won) [0 ..< length (pcs r)]"

section \<open>application/booking\_controller.py\<close>

text \<open>
  \<^verbatim>\<open>Queue.get()\<close> without a timeout returns the oldest item, and blocks while the queue is
  empty: \<open>None\<close> when nothing can arrive any more.
\<close>

definition queue_get :: "'a list \<Rightarrow> ('a \<times> 'a list) option" where
  "queue_get q = (case q of [] \<Rightarrow> None | item # rest \<Rightarrow> Some (item, rest))"

text \<open>
  Starting the processes and joining them all, under the schedule in which each process
  runs to its exit before the next one moves; \<open>None\<close> when a process is still looping
  once the fuel is spent. Process \<open>p\<close> meets \<open>envs p k\<close> at its \<open>k\<close>-th attempt.
\<close>

fun start_and_join ::
  "nat \<Rightarrow> (int \<Rightarrow> nat \<Rightarrow> env) \<Rightarrow> int list \<Rightarrow> world \<Rightarrow> world option" where
  "start_and_join fuel envs [] w = Some w"
| "start_and_join fuel envs (p # ps) w =
     (case booking_worker fuel p (envs p) 0 w of
        (None, _) \<Rightarrow> None
      | (Some _, w') \<Rightarrow> start_and_join fuel envs ps w')"

datatype book_result = Finished bool | BlockedOnQueueGet | WorkersStillRunning

text \<open>A dictionary with keys is truthy, so \<^verbatim>\<open>not reservation_data\<close> is false for every item.\<close>

definition truthy :: "reservation \<Rightarrow> bool" where
  "truthy reservation_data = True"

text \<open>
  \<^verbatim>\<open>BookingController.book_ticket\<close>: the flag is reset, \<open>num_processes\<close> workers numbered
  from 1 are started and joined, and then \<^verbatim>\<open>result_queue.get()\<close> is called. All that
  follows the read of the queue (the table, the one-time code, \<^verbatim>\<open>finalize_booking\<close>) is the
  argument \<open>finalize\<close>.
\<close>

definition book_ticket ::
  "nat \<Rightarrow> (int \<Rightarrow> nat \<Rightarrow> env) \<Rightarrow> nat \<Rightarrow> (reservation \<Rightarrow> bool) \<Rightarrow> world \<Rightarrow> book_result" where
  "book_ticket fuel envs num_processes finalize w =
     (case start_and_join fuel envs (map (\<lambda>i. int i + 1) [0 ..< num_processes])
             (w\<lparr>is_reserved := False\<rparr>) of
        None \<Rightarrow> WorkersStillRunning
      | Some joined \<Rightarrow>
          (case queue_get (result_queue joined) of
             None \<Rightarrow> BlockedOnQueueGet
           | Some (reservation_data, _) \<Rightarrow>
               (if \<not> truthy reservation_data then Finished False
                else Finished (finalize reservation_data))))"

text \<open>\<^verbatim>\<open>BookingConfig.max_retry_attempts\<close> of \<^verbatim>\<open>config.py\<close>.\<close>

definition default_max_retry_attempts :: int where
  "default_max_retry_attempts = 3"

text \<open>
  The loop of \<^verbatim>\<open>__run_with_retry\<close>. What \<^verbatim>\<open>book_ticket\<close> does at each attempt is the argument
  \<open>races\<close>: it returns a truth value, raises (\<^verbatim>\<open>KeyboardInterrupt\<close>) or never returns.
  \<^verbatim>\<open>attempt\<close> is incremented once before each call, so it counts the races run.
\<close>

datatype outcome = Returns bool | Raises | Blocks

datatype log = Info_booked_on_attempt int | Warning_attempt_failed int | Error_failed_after int

datatype loop_end = Completed | Propagated | Blocked

function retry_loop ::
  "(int \<Rightarrow> outcome) \<Rightarrow> int \<Rightarrow> int \<Rightarrow> log list \<Rightarrow> loop_end \<times> int \<times> log list" where
  "retry_loop races max_retry_attempts attempt logs =
     (if attempt < max_retry_attempts then
        (case races (attempt + 1) of
           Returns succeeded \<Rightarrow>
             (if succeeded
              then (Completed, attempt + 1, logs @ [Info_booked_on_attempt (attempt + 1)])
              else retry_loop races max_retry_attempts (attempt + 1)
                     (logs @ [Warning_attempt_failed (attempt + 1)]))
         | Raises \<Rightarrow> (Propagated, attempt + 1, logs)
         | Blocks \<Rightarrow> (Blocked, attempt + 1, logs))
      else (Completed, attempt, logs))"
  by pat_completeness auto
termination
  by (relation "measure (\<lambda>(races, max_retry_attempts, attempt, logs).
                  nat (max_retry_attempts - attempt))") auto

text \<open>The loop from \<^verbatim>\<open>attempt = 0\<close>, followed by the final test and its error message.\<close>

definition run_with_retry :: "(int \<Rightarrow> outcome) \<Rightarrow> int \<Rightarrow> loop_end \<times> int \<times> log list" where
  "run_with_retry races max_retry_attempts =
     (case retry_loop races max_retry_attempts 0 [] of
        (Completed, attempt, logs) \<Rightarrow>
          (Completed, attempt,
           if attempt \<ge> max_retry_attempts
           then logs @ [Error_failed_after max_retry_attempts] else logs)
      | other \<Rightarrow> other)"

declare retry_loop.simps [simp del]

section \<open>Example inputs\<close>

definition dhaka_bp :: boarding_point where
  "dhaka_bp = \<lparr>bp_id = 1, bp_name = ''Dhaka'', bp_time = ''06:00'', bp_date = ''01 Jan''\<rparr>"

definition biman_bp :: boarding_point where
  "biman_bp = \<lparr>bp_id = 2, bp_name = ''Biman_Bandar'', bp_time = ''06:30'', bp_date = ''01 Jan''\<rparr>"

definition mk_seat :: "string \<Rightarrow> int \<Rightarrow> bool \<Rightarrow> seat" where
  "mk_seat label tid avail =
     \<lparr>seat_number = label, ticket_id = tid, is_available = avail, is_hidden = False,
      ticket_type = 1\<rparr>"

definition mk_floor :: "int \<Rightarrow> seat list list \<Rightarrow> floor" where
  "mk_floor k rows =
     \<lparr>floor_number = k, seats = rows, floor_name = ''KA'', seat_availability = True\<rparr>"

definition mk_layout :: "floor list \<Rightarrow> seat_layout" where
  "mk_layout fls = \<lparr>trip_id = - 1, trip_route_id = - 1, floors = fls\<rparr>"

text \<open>The row of the specification's scenario: A1, A2 and A4 available, A3 not.\<close>

definition scenario_row :: "seat list" where
  "scenario_row =
     [mk_seat ''A1'' 1 True, mk_seat ''A2'' 2 True, mk_seat ''A3'' 3 False,
      mk_seat ''A4'' 4 True]"

definition scenario_layout :: seat_layout where
  "scenario_layout = mk_layout [mk_floor 1 [scenario_row]]"

text \<open>The same floor followed by a second available floor whose only seat is taken.\<close>

definition two_floor_layout :: seat_layout where
  "two_floor_layout =
     mk_layout [mk_floor 1 [scenario_row], mk_floor 2 [[mk_seat ''B1'' 5 False]]]"

text \<open>A row in which a taken seat separates two available ones.\<close>

definition gap_row :: "seat list" where
  "gap_row = [mk_seat ''C1'' 11 True, mk_seat ''C2'' 12 False, mk_seat ''C3'' 13 True]"

definition gap_layout :: seat_layout where
  "gap_layout = mk_layout [mk_floor 1 [gap_row]]"

definition ok_response :: api_response where
  "ok_response = \<lparr>success = True, data = TextBody ''ok'', error_message = None,
                   status_code = Some 200\<rparr>"

definition taken_response :: api_response where
  "taken_response = \<lparr>success = False, data = ErrorBody ''seat is not available'',
                      error_message = Some ''seat is not available'',
                      status_code = Some 422\<rparr>"

definition timeout_response :: api_response where
  "timeout_response = \<lparr>success = False, data = NoBody, error_message = Some ''timeout'',
                        status_code = None\<rparr>"

definition server_error_response :: api_response where
  "server_error_response = \<lparr>success = False, data = ErrorBody ''internal error'',
                             error_message = Some ''internal error'',
                             status_code = Some 500\<rparr>"

definition unauthorized_response :: api_response where
  "unauthorized_response = \<lparr>success = False, data = ErrorBody ''unauthorized'',
                             error_message = Some ''unauthorized'',
                             status_code = Some 401\<rparr>"

definition layout_response :: "seat_layout \<Rightarrow> api_response" where
  "layout_response layout = \<lparr>success = True, data = LayoutBody layout, error_message = None,
                              status_code = Some 200\<rparr>"

text \<open>The remote service that reserves ticket 1 and refuses every other ticket.\<close>

definition only_first_remote :: "int \<Rightarrow> api_response" where
  "only_first_remote tid = (if tid = 1 then ok_response else taken_response)"

definition two_passengers :: "passenger list" where
  "two_passengers =
     [\<lparr>p_name = ''A'', p_email = ''a@x.org'', p_mobile = ''01700000000'', p_gender = ''female'',
       p_type = ''Adult''\<rparr>,
      \<lparr>p_name = ''B'', p_email = ''a@x.org'', p_mobile = ''01700000000'', p_gender = ''male'',
       p_type = ''Adult''\<rparr>]"

definition mk_env :: "api_response \<Rightarrow> (int \<Rightarrow> api_response) \<Rightarrow> env" where
  "mk_env layout_resp remote =
     \<lparr>seat_layout_response = layout_resp, reserve_seat_response = remote,
      prepared_passengers = Inr two_passengers, draw_floor = 0, draw_group = 0\<rparr>"

definition idle_world :: world where
  "idle_world = \<lparr>is_reserved = False, result_queue = [], calls = [], slept_ms = []\<rparr>"

definition claimed_world :: world where
  "claimed_world = \<lparr>is_reserved = True, result_queue = [], calls = [], slept_ms = []\<rparr>"

definition timeout_remote :: "int \<Rightarrow> api_response" where
  "timeout_remote tid = timeout_response"

definition accepting_remote :: "int \<Rightarrow> api_response" where
  "accepting_remote tid = ok_response"

text \<open>Attempts whose seat layout request fails with a server error, or times out.\<close>

definition server_error_envs :: "nat \<Rightarrow> env" where
  "server_error_envs k = mk_env server_error_response accepting_remote"

definition timeout_envs :: "nat \<Rightarrow> env" where
  "timeout_envs k = mk_env timeout_response accepting_remote"

text \<open>Attempts that get a seat map without any floor.\<close>

definition no_seat_envs :: "nat \<Rightarrow> env" where
  "no_seat_envs k = mk_env (layout_response (mk_layout [])) accepting_remote"

text \<open>Attempts that get the scenario's seat map and whose reservation requests time out.\<close>

definition reserve_timeout_envs :: "nat \<Rightarrow> env" where
  "reserve_timeout_envs k = mk_env (layout_response scenario_layout) timeout_remote"

text \<open>Workers that are all refused as unauthorized, and workers that are all served.\<close>

definition unauthorized_envs :: "int \<Rightarrow> nat \<Rightarrow> env" where
  "unauthorized_envs p k = mk_env unauthorized_response accepting_remote"

definition served_envs :: "int \<Rightarrow> nat \<Rightarrow> env" where
  "served_envs p k = mk_env (layout_response scenario_layout) accepting_remote"

definition finalize_ok :: "reservation \<Rightarrow> bool" where
  "finalize_ok reservation_data = True"

text \<open>A remote service that accepts the reservation of every process.\<close>

definition remote_accepts_all :: "nat \<Rightarrow> bool" where
  "remote_accepts_all p = True"

text \<open>Races that all return \<^verbatim>\<open>False\<close>.\<close>

definition always_fails :: "int \<Rightarrow> outcome" where
  "always_fails attempt = Returns False"

section \<open>Boarding point lookup\<close>

lemma find_boarding_point_nonempty:
  assumes "boarding_points \<noteq> []"
  shows "find_boarding_point boarding_points from_city =
           Inr (Some (case find (name_matches from_city) boarding_points of
                        None \<Rightarrow> hd boarding_points | Some bp \<Rightarrow> bp))"
  using assms
  by (cases boarding_points) (simp_all add: find_boarding_point_def split: option.splits)

text \<open>
  Claim C9. For a trip whose list of boarding points is not empty, \<open>find_boarding_point\<close>
  returns a boarding point and never \<open>None\<close> (nor an error). When no name starts, ignoring
  case, with the given city, the result is the first boarding point of the list;
  otherwise it is the first one in list order whose name matches.
\<close>

theorem find_boarding_point_never_none:
  assumes "boarding_points \<noteq> []"
  shows "\<exists>bp. find_boarding_point boarding_points from_city = Inr (Some bp)
           \<and> bp \<in> set boarding_points
           \<and> ((\<forall>b \<in> set boarding_points. \<not> name_matches from_city b)
                 \<longrightarrow> bp = boarding_points ! 0)
           \<and> ((\<exists>b \<in> set boarding_points. name_matches from_city b)
                 \<longrightarrow> (\<exists>i < length boarding_points.
                        bp = boarding_points ! i \<and> name_matches from_city bp
                        \<and> (\<forall>j < i. \<not> name_matches from_city (boarding_points ! j))))"
proof (cases "find (name_matches from_city) boarding_points")
  case None
  then have no_match: "\<forall>b \<in> set boarding_points. \<not> name_matches from_city b"
    by (simp add: find_None_iff)
  have res: "find_boarding_point boarding_points from_city = Inr (Some (hd boarding_points))"
    using assms None by (simp add: find_boarding_point_nonempty)
  have "hd boarding_points = boarding_points ! 0"
    using assms by (simp add: hd_conv_nth)
  with res no_match assms show ?thesis by auto
next
  case (Some bp)
  then obtain i where i: "i < length boarding_points" "name_matches from_city (boarding_points ! i)"
    "bp = boarding_points ! i" "\<forall>j < i. \<not> name_matches from_city (boarding_points ! j)"
    by (auto simp: find_Some_iff)
  have res: "find_boarding_point boarding_points from_city = Inr (Some bp)"
    using assms Some by (simp add: find_boarding_point_nonempty)
  have mem: "bp \<in> set boarding_points"
    using i by simp
  have some: "\<not> (\<forall>b \<in> set boarding_points. \<not> name_matches from_city b)"
    using i mem by auto
  show ?thesis
    using res mem some i by blast
qed

theorem find_boarding_point_never_none_witness:
  "[dhaka_bp, biman_bp] \<noteq> []
   \<and> find_boarding_point [dhaka_bp, biman_bp] ''BIMAN'' = Inr (Some biman_bp)
   \<and> find_boarding_point [dhaka_bp, biman_bp] ''Khulna'' = Inr (Some dhaka_bp)"
proof -
  have ne: "[dhaka_bp, biman_bp] \<noteq> []" by simp
  have m1: "\<not> name_matches ''BIMAN'' dhaka_bp"
    by code_simp
  have m2: "name_matches ''BIMAN'' biman_bp"
    by code_simp
  have k1: "\<not> name_matches ''Khulna'' dhaka_bp"
    by code_simp
  have k2: "\<not> name_matches ''Khulna'' biman_bp"
    by code_simp
  have neq: "dhaka_bp \<noteq> biman_bp"
    by (simp add: dhaka_bp_def biman_bp_def)
  from find_boarding_point_never_none [OF ne, of "''BIMAN''"]
  obtain bp where a: "find_boarding_point [dhaka_bp, biman_bp] ''BIMAN'' = Inr (Some bp)"
    and a_in: "bp \<in> set [dhaka_bp, biman_bp]"
    and a_m: "(\<exists>b \<in> set [dhaka_bp, biman_bp]. name_matches ''BIMAN'' b)
                \<longrightarrow> (\<exists>i < length [dhaka_bp, biman_bp].
                       bp = [dhaka_bp, biman_bp] ! i \<and> name_matches ''BIMAN'' bp
                       \<and> (\<forall>j < i. \<not> name_matches ''BIMAN'' ([dhaka_bp, biman_bp] ! j)))"
    by blast
  have "name_matches ''BIMAN'' bp"
    using a_m m2 by auto
  with a_in m1 have "bp = biman_bp" by auto
  with a have r1: "find_boarding_point [dhaka_bp, biman_bp] ''BIMAN'' = Inr (Some biman_bp)"
    by simp
  from find_boarding_point_never_none [OF ne, of "''Khulna''"]
  obtain bq where b: "find_boarding_point [dhaka_bp, biman_bp] ''Khulna'' = Inr (Some bq)"
    and b_m: "(\<forall>b \<in> set [dhaka_bp, biman_bp]. \<not> name_matches ''Khulna'' b)
                \<longrightarrow> bq = [dhaka_bp, biman_bp] ! 0"
    by blast
  have "bq = dhaka_bp"
    using b_m k1 k2 by simp
  with b have r2: "find_boarding_point [dhaka_bp, biman_bp] ''Khulna'' = Inr (Some dhaka_bp)"
    by simp
  from ne r1 r2 show ?thesis by blast
qed

section \<open>Payload list adjustment\<close>

text \<open>
  Claim C10. For every list, every target length \<open>n \<ge> 0\<close> and every default value,
  \<open>adjust_list\<close> returns a list of exactly \<open>n\<close> elements; its first
  \<open>min n (length items)\<close> elements are those of the input, in order; everything after the
  input's elements is the default (padding), and a longer input is cut at \<open>n\<close>.
\<close>

theorem adjust_list_length_and_prefix:
  assumes "0 \<le> n"
  shows "length (adjust_list items n d) = nat n
         \<and> take (min (nat n) (length items)) (adjust_list items n d)
             = take (min (nat n) (length items)) items
         \<and> drop (length items) (adjust_list items n d)
             = replicate (nat n - length items) d"
proof (cases "int (length items) < n")
  case True
  then have lt: "length items < nat n" by linarith
  have eq: "adjust_list items n d = items @ replicate (nat n - length items) d"
    using True assms by (simp add: adjust_list_def nat_diff_distrib)
  have m: "min (nat n) (length items) = length items"
    using lt by simp
  show ?thesis
    using lt by (simp add: eq m)
next
  case False
  then have ge: "nat n \<le> length items" using assms by linarith
  have eq: "adjust_list items n d = take (nat n) items"
    using False assms by (simp add: adjust_list_def slice_to_def)
  have m: "min (nat n) (length items) = nat n"
    using ge by simp
  show ?thesis
    using ge by (simp add: eq m)
qed

theorem adjust_list_length_and_prefix_witness:
  "(0::int) \<le> 3
   \<and> adjust_list [''a''] 3 ''x'' = [''a'', ''x'', ''x'']
   \<and> length (adjust_list [''a'', ''b'', ''c'', ''d''] 3 ''x'') = 3
   \<and> take 3 (adjust_list [''a'', ''b'', ''c'', ''d''] 3 ''x'') = [''a'', ''b'', ''c'']"
proof -
  have h: "(0::int) \<le> 3" by simp
  have pad: "adjust_list [''a''] 3 ''x'' = [''a'', ''x'', ''x'']"
    by code_simp
  show ?thesis
    using h pad adjust_list_length_and_prefix [OF h, of "[''a'', ''b'', ''c'', ''d'']" "''x''"]
    by (simp add: numeral_3_eq_3)
qed
section \<open>Selection of a seat group\<close>

lemma slice_window:
  assumes "0 \<le> n" "int i + n \<le> int (length xs)"
  shows "slice xs (int i) (int i + n) = take (nat n) (drop i xs)"
  using assms by (auto simp: slice_def clamp_index_def Let_def min_def nat_add_distrib)

lemma row_groups_nonneg:
  assumes "0 \<le> n"
  shows "row_groups row n =
           map (\<lambda>i. take (nat n) (drop i (filter selectable row)))
               [0 ..< Suc (length (filter selectable row)) - nat n]"
proof -
  let ?av = "filter selectable row"
  have len: "nat (int (length ?av) - n + 1) = Suc (length ?av) - nat n"
    using assms by linarith
  have "\<And>i. i \<in> set [0 ..< Suc (length ?av) - nat n] \<Longrightarrow>
          slice ?av (int i) (int i + n) = take (nat n) (drop i ?av)"
  proof -
    fix i assume "i \<in> set [0 ..< Suc (length ?av) - nat n]"
    then have "int i + n \<le> int (length ?av)" using assms by auto
    then show "slice ?av (int i) (int i + n) = take (nat n) (drop i ?av)"
      using assms by (rule slice_window[rotated])
  qed
  then show ?thesis
    unfolding row_groups_def Let_def len by (simp cong: map_cong)
qed

lemma row_groups_member:
  assumes "0 \<le> n" "g \<in> set (row_groups row n)"
  shows "length g = nat n \<and> list_all selectable g \<and> subseq g row"
proof -
  let ?av = "filter selectable row"
  from assms obtain i where i: "i < Suc (length ?av) - nat n"
    and g: "g = take (nat n) (drop i ?av)"
    by (auto simp: row_groups_nonneg)
  have len: "length g = nat n"
    using i g by auto
  have "set g \<subseteq> set ?av"
    unfolding g by (meson set_drop_subset set_take_subset subset_trans)
  then have sel: "list_all selectable g"
    by (auto simp: list_all_iff)
  have "sublist g ?av"
    unfolding g by (meson sublist_order.order_trans sublist_take sublist_drop)
  then have "subseq g ?av"
    by (rule sublist_imp_subseq)
  then have "subseq g row"
    by (meson subseq_order.order_trans subseq_filter_left)
  with len sel show ?thesis by simp
qed

lemma row_groups_nonempty:
  assumes "0 \<le> n" "nat n \<le> length (filter selectable row)"
  shows "row_groups row n \<noteq> []"
  using assms by (simp add: row_groups_nonneg)

lemma takeWhile_le_filter: "length (takeWhile P xs) \<le> length (filter P xs)"
  by (induction xs) auto

lemma spec_longest_run_le: "spec_longest_run row \<le> length (filter selectable row)"
proof (induction row)
  case Nil
  then show ?case by simp
next
  case (Cons s row)
  have a: "length (takeWhile selectable (s # row)) \<le> length (filter selectable (s # row))"
    by (rule takeWhile_le_filter)
  have b: "length (filter selectable row) \<le> length (filter selectable (s # row))"
    by simp
  from a b Cons show ?case by (simp del: takeWhile.simps filter.simps)
qed

lemma choice_member: "choice r seq = Inr x \<Longrightarrow> x \<in> set seq"
  by (auto simp: choice_def split: if_splits)

text \<open>
  Claim C2, as amended. For every seat map, every group size \<open>n \<ge> 0\<close> and every pair of
  random draws, the selection returns either the empty list or a group of exactly \<open>n\<close>
  seats, all available and none an aisle, taken in row order from a single row of an
  available floor. It returns a group of exactly \<open>n\<close> seats whenever the floor that was
  drawn has a row whose longest run of available non-aisle seats is at least \<open>n\<close>. (That
  the seats of the group are neighbours in the row is not part of the statement.)
\<close>

theorem selection_group_shape:
  assumes "0 \<le> n"
  shows "(find_random_adjacent_seats layout n r_floor r_group = []
          \<or> (length (find_random_adjacent_seats layout n r_floor r_group) = nat n
              \<and> list_all (\<lambda>s. is_available s \<and> \<not> is_aisle s)
                   (find_random_adjacent_seats layout n r_floor r_group)
              \<and> (\<exists>fl \<in> set (available_floors layout). \<exists>row \<in> set (seats fl).
                    subseq (find_random_adjacent_seats layout n r_floor r_group) row)))
         \<and> (\<forall>fl. choice r_floor (available_floors layout) = Inr fl
                \<and> (\<exists>row \<in> set (seats fl). nat n \<le> spec_longest_run row)
              \<longrightarrow> length (find_random_adjacent_seats layout n r_floor r_group) = nat n)"
proof (cases "choice r_floor (available_floors layout)")
  case (Inl e)
  then have "find_random_adjacent_seats layout n r_floor r_group = []"
    by (cases e) (simp add: find_random_adjacent_seats_def)
  with Inl show ?thesis by simp
next
  case (Inr fl)
  have fl_in: "fl \<in> set (available_floors layout)"
    using Inr by (rule choice_member)
  let ?groups = "find_adjacent_seats_pairs fl n"
  show ?thesis
  proof (cases "choice r_group ?groups")
    case (Inl e)
    then have empty: "find_random_adjacent_seats layout n r_floor r_group = []"
      using Inr by (cases e) (simp add: find_random_adjacent_seats_def)
    have none: "?groups = []"
      using Inl by (auto simp: choice_def split: if_splits)
    have "\<not> (\<exists>row \<in> set (seats fl). nat n \<le> spec_longest_run row)"
    proof
      assume "\<exists>row \<in> set (seats fl). nat n \<le> spec_longest_run row"
      then obtain row where row: "row \<in> set (seats fl)" "nat n \<le> spec_longest_run row"
        by blast
      then have "nat n \<le> length (filter selectable row)"
        using spec_longest_run_le [of row] by linarith
      then have "row_groups row n \<noteq> []"
        using assms by (simp add: row_groups_nonempty)
      with row(1) have "?groups \<noteq> []"
        by (auto simp: find_adjacent_seats_pairs_def)
      with none show False by simp
    qed
    with empty Inr show ?thesis by simp
  next
    case (Inr g)
    then have res: "find_random_adjacent_seats layout n r_floor r_group = g"
      using \<open>choice r_floor (available_floors layout) = Inr fl\<close>
      by (simp add: find_random_adjacent_seats_def)
    have "g \<in> set ?groups"
      using Inr by (rule choice_member)
    then obtain row where row: "row \<in> set (seats fl)" "g \<in> set (row_groups row n)"
      by (auto simp: find_adjacent_seats_pairs_def)
    have shape: "length g = nat n \<and> list_all selectable g \<and> subseq g row"
      using row_groups_member [of n g row] row(2) assms by simp
    then have "list_all (\<lambda>s. is_available s \<and> \<not> is_aisle s) g"
      by (auto simp: list_all_iff selectable_def)
    with shape row(1) fl_in res show ?thesis by auto
  qed
qed

text \<open>
  The amended statement at the scenario of the specification, with both draws 0: the
  drawn floor has a row whose longest run is 2, and the pair (A1, A2) is returned.
\<close>

theorem selection_group_shape_witness:
  "(0::int) \<le> 2
   \<and> choice 0 (available_floors scenario_layout) = Inr (mk_floor 1 [scenario_row])
   \<and> scenario_row \<in> set (seats (mk_floor 1 [scenario_row]))
   \<and> nat 2 \<le> spec_longest_run scenario_row
   \<and> length (find_random_adjacent_seats scenario_layout 2 0 0) = nat 2
   \<and> find_random_adjacent_seats scenario_layout 2 0 0
       = [mk_seat ''A1'' 1 True, mk_seat ''A2'' 2 True]"
proof -
  have h: "(0::int) \<le> 2" by simp
  have fl: "choice 0 (available_floors scenario_layout) = Inr (mk_floor 1 [scenario_row])"
    by code_simp
  have row: "scenario_row \<in> set (seats (mk_floor 1 [scenario_row]))"
    by (simp add: mk_floor_def)
  have long: "nat 2 \<le> spec_longest_run scenario_row"
    by code_simp
  have run: "\<exists>row \<in> set (seats (mk_floor 1 [scenario_row])). nat 2 \<le> spec_longest_run row"
    using row long by blast
  have val: "find_random_adjacent_seats scenario_layout 2 0 0
               = [mk_seat ''A1'' 1 True, mk_seat ''A2'' 2 True]"
    by code_simp
  have "length (find_random_adjacent_seats scenario_layout 2 0 0) = nat 2"
    using selection_group_shape [OF h, of scenario_layout 0 0] fl run by blast
  with h fl row long val show ?thesis by blast
qed

text \<open>
  Claim C2 as stated fails twice. In the scenario of the specification the longest run
  is 2, and with the second draw 1 the selection returns (A2, A4), which is not a
  contiguous part of the row: the taken seat A3 lies between. And on a seat map whose
  first floor is that of the scenario and whose second available floor has no free seat,
  drawing the second floor returns the empty list although a run of 2 exists.
\<close>

theorem selection_contiguous_counterexample:
  "spec_longest_run scenario_row = 2
   \<and> find_random_adjacent_seats scenario_layout 2 0 1
       = [mk_seat ''A2'' 2 True, mk_seat ''A4'' 4 True]
   \<and> \<not> sublist [mk_seat ''A2'' 2 True, mk_seat ''A4'' 4 True] scenario_row
   \<and> find_random_adjacent_seats two_floor_layout 2 1 0 = []"
  by code_simp

text \<open>
  Claim C3. A seat map in which no row has a run of two available non-aisle seats should
  yield the empty selection for a group of two. On the row C1 (available), C2 (taken),
  C3 (available) the longest run is 1, yet for every pair of draws the selection returns
  the pair (C1, C3): the windows slide over the row with its taken seats removed.
\<close>

theorem selection_spans_taken_seat:
  "spec_longest_run gap_row = 1
   \<and> find_random_adjacent_seats gap_layout 2 r_floor r_group
       = [mk_seat ''C1'' 11 True, mk_seat ''C3'' 13 True]"
proof -
  have run: "spec_longest_run gap_row = 1"
    by code_simp
  have floors: "available_floors gap_layout = [mk_floor 1 [gap_row]]"
    by code_simp
  have groups: "find_adjacent_seats_pairs (mk_floor 1 [gap_row]) 2
                  = [[mk_seat ''C1'' 11 True, mk_seat ''C3'' 13 True]]"
    by code_simp
  have "find_random_adjacent_seats gap_layout 2 r_floor r_group
          = [mk_seat ''C1'' 11 True, mk_seat ''C3'' 13 True]"
    by (simp add: find_random_adjacent_seats_def floors groups choice_def)
  with run show ?thesis by simp
qed

section \<open>Reservation of a group\<close>

text \<open>
  Claim C5. When a seat of the group cannot be reserved, the exception should carry the
  reason of the first failing reservation. For the group (A1, A2) and a remote service
  that reserves A1 and refuses A2, \<open>seat_service_reserve_seats\<close> raises
  \<open>ReservationFailedException\<close> with the response to A1, which succeeded and has no error
  message; the reason given for A2 is lost.
\<close>

theorem reservation_failure_carries_first_response:
  "seat_service_reserve_seats only_first_remote [mk_seat ''A1'' 1 True, mk_seat ''A2'' 2 True]
     = Inl (ReservationFailedException ok_response)
   \<and> success ok_response
   \<and> error_message ok_response = None
   \<and> only_first_remote 2 = taken_response
   \<and> error_message taken_response = Some ''seat is not available''"
  by code_simp

lemma seat_service_fails:
  assumes "\<exists>s \<in> set seats_to_reserve. \<not> success (remote (ticket_id s))"
  shows "\<exists>r. seat_service_reserve_seats remote seats_to_reserve
               = Inl (ReservationFailedException r)"
proof -
  have zip: "zip seats_to_reserve (map (\<lambda>s. remote (ticket_id s)) seats_to_reserve)
               = map (\<lambda>s. (s, remote (ticket_id s))) seats_to_reserve"
    by (induction seats_to_reserve) auto
  from assms obtain s where s: "s \<in> set seats_to_reserve" "\<not> success (remote (ticket_id s))"
    by blast
  then have "(s, remote (ticket_id s))
               \<in> set (filter (\<lambda>(s, response). \<not> success response)
                        (map (\<lambda>s. (s, remote (ticket_id s))) seats_to_reserve))"
    by auto
  then have "filter (\<lambda>(s, response). \<not> success response)
               (map (\<lambda>s. (s, remote (ticket_id s))) seats_to_reserve) \<noteq> []"
    by (metis empty_iff list.set(1))
  then show ?thesis
    by (simp add: seat_service_reserve_seats_def Let_def zip)
qed

section \<open>One attempt and the loop of the worker\<close>

lemma handle_exception_exits: "handle_exception err = SysExit 0"
  by (cases err) simp_all

lemma get_seat_layout_fails:
  assumes "\<not> success response"
  shows "\<exists>err. get_seat_layout response = Inl err"
  using assms by (simp add: get_seat_layout_def split: payload.splits)

lemma failed_fetch_raises:
  assumes "\<not> is_reserved w" "\<not> success (seat_layout_response e)"
  shows "\<exists>err. process_booking process_id e w
                 = (Raised err, w\<lparr>calls := calls w @ [GetSeatLayout]\<rparr>)"
proof (cases "prepared_passengers e")
  case (Inl err)
  with assms(1) show ?thesis
    by (simp add: process_booking_def find_seat_layout_and_passengers_def Let_def)
next
  case (Inr ps)
  from get_seat_layout_fails [OF assms(2)]
  obtain err where "get_seat_layout (seat_layout_response e) = Inl err" by blast
  with Inr assms(1) show ?thesis
    by (simp add: process_booking_def find_seat_layout_and_passengers_def Let_def)
qed

lemma no_seats_returns:
  assumes "\<not> is_reserved w" "prepared_passengers e = Inr ps"
    "get_seat_layout (seat_layout_response e) = Inr layout"
    "find_random_adjacent_seats layout (int (length ps)) (draw_floor e) (draw_group e) = []"
  shows "process_booking process_id e w = (Returned, w\<lparr>calls := calls w @ [GetSeatLayout]\<rparr>)"
  using assms
  by (simp add: process_booking_def find_seat_layout_and_passengers_def Let_def)

lemma failed_reservation_raises:
  assumes "\<not> is_reserved w" "prepared_passengers e = Inr ps"
    "get_seat_layout (seat_layout_response e) = Inr layout"
    "find_random_adjacent_seats layout (int (length ps)) (draw_floor e) (draw_group e) = sel"
    "\<exists>s \<in> set sel. \<not> success (reserve_seat_response e (ticket_id s))"
  shows "\<exists>r. process_booking process_id e w
               = (Raised (ReservationFailedException r),
                  w\<lparr>calls := calls w @ GetSeatLayout # map (\<lambda>s. ReserveSeat (ticket_id s)) sel\<rparr>)"
proof -
  from assms(5) have ne: "sel \<noteq> []" by auto
  from seat_service_fails [OF assms(5)]
  obtain r where r: "seat_service_reserve_seats (reserve_seat_response e) sel
                       = Inl (ReservationFailedException r)" by blast
  have "process_booking process_id e w
          = (Raised (ReservationFailedException r),
             w\<lparr>calls := calls w @ GetSeatLayout # map (\<lambda>s. ReserveSeat (ticket_id s)) sel\<rparr>)"
    using assms(1-4) ne r
    by (simp add: process_booking_def find_seat_layout_and_passengers_def reserve_seats_def
        Let_def)
  then show ?thesis by blast
qed

text \<open>
  Claim C6. An attempt that starts while the shared flag is set raises
  \<open>SeatAlreadyReservedException\<close> at once: the attempt changes nothing, in particular it
  sends no request (neither for the seat map nor for a seat), and the worker exits on it.
\<close>

theorem claimed_attempt_makes_no_call:
  assumes "is_reserved w"
  shows "process_booking process_id e w = (Raised SeatAlreadyReservedException, w)
         \<and> calls (snd (process_booking process_id e w)) = calls w
         \<and> booking_worker (Suc fuel) process_id envs k w = (Some (SysExit 0), w)"
  using assms
  by (simp add: process_booking_def find_seat_layout_and_passengers_def)

theorem claimed_attempt_makes_no_call_witness:
  "is_reserved claimed_world
   \<and> process_booking 1 (served_envs 1 0) claimed_world
       = (Raised SeatAlreadyReservedException, claimed_world)
   \<and> calls (snd (process_booking 1 (served_envs 1 0) claimed_world)) = []
   \<and> booking_worker (Suc 2) 1 (served_envs 1) 0 claimed_world = (Some (SysExit 0), claimed_world)"
proof -
  have h: "is_reserved claimed_world"
    by (simp add: claimed_world_def)
  have c: "calls claimed_world = []"
    by (simp add: claimed_world_def)
  show ?thesis
    using h c claimed_attempt_makes_no_call [OF h, of 1 "served_envs 1 0" 2 "served_envs 1" 0]
    by simp
qed

text \<open>
  Claim C7, as amended. A worker whose attempt meets a failed remote call stops: when the
  seat map request fails in any way (a timeout and a server error included), and when
  the reservation of a selected seat fails in any way, the worker exits with
  \<^verbatim>\<open>sys.exit(0)\<close> in that attempt, without a pause and without another attempt. The
  pause of 100 ms followed by a new attempt is what the worker does after an attempt
  that raised nothing, such as one that found no seats.
\<close>

theorem worker_stops_on_remote_failure:
  assumes "\<not> is_reserved w"
  shows "(\<not> success (seat_layout_response (envs k))
            \<longrightarrow> booking_worker (Suc fuel) process_id envs k w
                  = (Some (SysExit 0), w\<lparr>calls := calls w @ [GetSeatLayout]\<rparr>))
         \<and> (\<forall>ps layout.
               prepared_passengers (envs k) = Inr ps
               \<and> get_seat_layout (seat_layout_response (envs k)) = Inr layout
               \<and> (\<exists>s \<in> set (find_random_adjacent_seats layout (int (length ps))
                                (draw_floor (envs k)) (draw_group (envs k))).
                      \<not> success (reserve_seat_response (envs k) (ticket_id s)))
               \<longrightarrow> fst (booking_worker (Suc fuel) process_id envs k w) = Some (SysExit 0)
                   \<and> slept_ms (snd (booking_worker (Suc fuel) process_id envs k w)) = slept_ms w
                   \<and> result_queue (snd (booking_worker (Suc fuel) process_id envs k w))
                       = result_queue w)
         \<and> (\<forall>ps layout.
               prepared_passengers (envs k) = Inr ps
               \<and> get_seat_layout (seat_layout_response (envs k)) = Inr layout
               \<and> find_random_adjacent_seats layout (int (length ps))
                     (draw_floor (envs k)) (draw_group (envs k)) = []
               \<longrightarrow> booking_worker (Suc fuel) process_id envs k w
                     = booking_worker fuel process_id envs (Suc k)
                         (w\<lparr>calls := calls w @ [GetSeatLayout],
                            slept_ms := slept_ms w @ [100]\<rparr>))"
proof (intro conjI impI allI)
  assume "\<not> success (seat_layout_response (envs k))"
  from failed_fetch_raises [OF assms this, of process_id]
  obtain err where "process_booking process_id (envs k) w
                      = (Raised err, w\<lparr>calls := calls w @ [GetSeatLayout]\<rparr>)" by blast
  then show "booking_worker (Suc fuel) process_id envs k w
               = (Some (SysExit 0), w\<lparr>calls := calls w @ [GetSeatLayout]\<rparr>)"
    by (simp add: handle_exception_exits)
next
  fix ps layout
  assume a: "prepared_passengers (envs k) = Inr ps
             \<and> get_seat_layout (seat_layout_response (envs k)) = Inr layout
             \<and> (\<exists>s \<in> set (find_random_adjacent_seats layout (int (length ps))
                              (draw_floor (envs k)) (draw_group (envs k))).
                    \<not> success (reserve_seat_response (envs k) (ticket_id s)))"
  let ?sel = "find_random_adjacent_seats layout (int (length ps))
                (draw_floor (envs k)) (draw_group (envs k))"
  from a have "\<exists>r. process_booking process_id (envs k) w
               = (Raised (ReservationFailedException r),
                  w\<lparr>calls := calls w @ GetSeatLayout # map (\<lambda>s. ReserveSeat (ticket_id s)) ?sel\<rparr>)"
    using failed_reservation_raises [OF assms, of "envs k" ps layout ?sel process_id] by blast
  then obtain r where r: "process_booking process_id (envs k) w
               = (Raised (ReservationFailedException r),
                  w\<lparr>calls := calls w @ GetSeatLayout # map (\<lambda>s. ReserveSeat (ticket_id s)) ?sel\<rparr>)"
    by blast
  show "fst (booking_worker (Suc fuel) process_id envs k w) = Some (SysExit 0)"
    using r by simp
  show "slept_ms (snd (booking_worker (Suc fuel) process_id envs k w)) = slept_ms w"
    using r by simp
  show "result_queue (snd (booking_worker (Suc fuel) process_id envs k w)) = result_queue w"
    using r by simp
next
  fix ps layout
  assume a: "prepared_passengers (envs k) = Inr ps
             \<and> get_seat_layout (seat_layout_response (envs k)) = Inr layout
             \<and> find_random_adjacent_seats layout (int (length ps))
                   (draw_floor (envs k)) (draw_group (envs k)) = []"
  then have "process_booking process_id (envs k) w
               = (Returned, w\<lparr>calls := calls w @ [GetSeatLayout]\<rparr>)"
    using no_seats_returns [OF assms, of "envs k" ps layout process_id] by blast
  then show "booking_worker (Suc fuel) process_id envs k w
               = booking_worker fuel process_id envs (Suc k)
                   (w\<lparr>calls := calls w @ [GetSeatLayout], slept_ms := slept_ms w @ [100]\<rparr>)"
    by simp
qed

text \<open>
  The amended statement at three inputs, from an idle shared state: a worker whose seat
  map request meets a server error exits after that one request; a worker whose
  reservation requests time out exits without a pause and without a result; a worker
  that gets a seat map without floors pauses 100 ms and goes on with its next attempt.
\<close>

theorem worker_stops_on_remote_failure_witness:
  "\<not> is_reserved idle_world
   \<and> \<not> success (seat_layout_response (server_error_envs 0))
   \<and> booking_worker (Suc 4) 1 server_error_envs 0 idle_world
       = (Some (SysExit 0), idle_world\<lparr>calls := calls idle_world @ [GetSeatLayout]\<rparr>)
   \<and> prepared_passengers (reserve_timeout_envs 0) = Inr two_passengers
   \<and> get_seat_layout (seat_layout_response (reserve_timeout_envs 0)) = Inr scenario_layout
   \<and> mk_seat ''A1'' 1 True
        \<in> set (find_random_adjacent_seats scenario_layout (int (length two_passengers))
                 (draw_floor (reserve_timeout_envs 0)) (draw_group (reserve_timeout_envs 0)))
   \<and> \<not> success (reserve_seat_response (reserve_timeout_envs 0)
                   (ticket_id (mk_seat ''A1'' 1 True)))
   \<and> fst (booking_worker (Suc 4) 1 reserve_timeout_envs 0 idle_world) = Some (SysExit 0)
   \<and> slept_ms (snd (booking_worker (Suc 4) 1 reserve_timeout_envs 0 idle_world))
       = slept_ms idle_world
   \<and> prepared_passengers (no_seat_envs 0) = Inr two_passengers
   \<and> get_seat_layout (seat_layout_response (no_seat_envs 0)) = Inr (mk_layout [])
   \<and> find_random_adjacent_seats (mk_layout []) (int (length two_passengers))
        (draw_floor (no_seat_envs 0)) (draw_group (no_seat_envs 0)) = []
   \<and> booking_worker (Suc 4) 1 no_seat_envs 0 idle_world
       = booking_worker 4 1 no_seat_envs (Suc 0)
           (idle_world\<lparr>calls := calls idle_world @ [GetSeatLayout],
                        slept_ms := slept_ms idle_world @ [100]\<rparr>)"
proof -
  have idle: "\<not> is_reserved idle_world"
    by (simp add: idle_world_def)
  have a1: "\<not> success (seat_layout_response (server_error_envs 0))"
    by code_simp
  have b1: "prepared_passengers (reserve_timeout_envs 0) = Inr two_passengers"
    by (simp add: reserve_timeout_envs_def mk_env_def)
  have b2: "get_seat_layout (seat_layout_response (reserve_timeout_envs 0)) = Inr scenario_layout"
    by (simp add: reserve_timeout_envs_def mk_env_def get_seat_layout_def layout_response_def)
  have b3: "mk_seat ''A1'' 1 True
              \<in> set (find_random_adjacent_seats scenario_layout (int (length two_passengers))
                       (draw_floor (reserve_timeout_envs 0)) (draw_group (reserve_timeout_envs 0)))"
    by code_simp
  have b4: "\<not> success (reserve_seat_response (reserve_timeout_envs 0)
                         (ticket_id (mk_seat ''A1'' 1 True)))"
    by code_simp
  have c1: "prepared_passengers (no_seat_envs 0) = Inr two_passengers"
    by (simp add: no_seat_envs_def mk_env_def)
  have c2: "get_seat_layout (seat_layout_response (no_seat_envs 0)) = Inr (mk_layout [])"
    by (simp add: no_seat_envs_def mk_env_def get_seat_layout_def layout_response_def)
  have c3: "find_random_adjacent_seats (mk_layout []) (int (length two_passengers))
              (draw_floor (no_seat_envs 0)) (draw_group (no_seat_envs 0)) = []"
    by code_simp
  note t1 = worker_stops_on_remote_failure [OF idle, of server_error_envs 0 4 1]
  note t2 = worker_stops_on_remote_failure [OF idle, of reserve_timeout_envs 0 4 1]
  note t3 = worker_stops_on_remote_failure [OF idle, of no_seat_envs 0 4 1]
  have r1: "booking_worker (Suc 4) 1 server_error_envs 0 idle_world
              = (Some (SysExit 0), idle_world\<lparr>calls := calls idle_world @ [GetSeatLayout]\<rparr>)"
    using t1 a1 by blast
  have r2: "fst (booking_worker (Suc 4) 1 reserve_timeout_envs 0 idle_world) = Some (SysExit 0)
            \<and> slept_ms (snd (booking_worker (Suc 4) 1 reserve_timeout_envs 0 idle_world))
                = slept_ms idle_world"
    using t2 b1 b2 b3 b4 by blast
  have r3: "booking_worker (Suc 4) 1 no_seat_envs 0 idle_world
              = booking_worker 4 1 no_seat_envs (Suc 0)
                  (idle_world\<lparr>calls := calls idle_world @ [GetSeatLayout],
                               slept_ms := slept_ms idle_world @ [100]\<rparr>)"
    using t3 c1 c2 c3 by blast
  from idle a1 r1 b1 b2 b3 b4 r2 c1 c2 c3 r3 show ?thesis by blast
qed

text \<open>
  Claim C7 as stated fails: a worker whose seat map request times out, with fuel for five
  attempts, exits in the first one. It sent one request and never paused.
\<close>

theorem worker_retry_counterexample:
  "fst (booking_worker 5 1 timeout_envs 0 idle_world) = Some (SysExit 0)
   \<and> calls (snd (booking_worker 5 1 timeout_envs 0 idle_world)) = [GetSeatLayout]
   \<and> slept_ms (snd (booking_worker 5 1 timeout_envs 0 idle_world)) = []"
  by code_simp

section \<open>The race between the workers\<close>

lemma one_winner_when_not_interleaved:
  "winners (race_run remote_accepts_all [0, 0, 0, 1, 1, 1] (race_start 2)) = [0]"
  by code_simp

text \<open>
  Claim C1. The read of the flag and its write should be one critical section, so that at
  most one worker claims. With two workers and a remote service that accepts both
  reservations, the schedule in which both read the flag before either writes it ends
  with both workers as winners: each found the flag unset, reserved, and set it.
\<close>

theorem two_workers_both_claim:
  "winners (race_run remote_accepts_all [0, 1, 0, 1, 0, 1] (race_start 2)) = [0, 1]
   \<and> length (winners (race_run remote_accepts_all [0, 1, 0, 1, 0, 1] (race_start 2))) = 2
   \<and> pcs (race_run remote_accepts_all [0, 1] (race_start 2)) = [AtReserve, AtReserve]
   \<and> claimed (race_run remote_accepts_all [0, 1, 0, 1, 0, 1] (race_start 2))"
  by code_simp

section \<open>The orchestrator\<close>

lemma served_workers_finish:
  "book_ticket 3 served_envs 2 finalize_ok idle_world = Finished True"
  by code_simp

text \<open>
  Claim C4. When every worker has ended without a result, \<open>book_ticket\<close> should return
  \<^verbatim>\<open>False\<close>. With two workers that are both refused as unauthorized, both exit, the queue
  is empty once they are joined, and \<open>book_ticket\<close> does not return: it waits on the
  empty queue.
\<close>

theorem no_winner_blocks_on_queue:
  "start_and_join 3 unauthorized_envs [1, 2] (idle_world\<lparr>is_reserved := False\<rparr>)
     = Some (idle_world\<lparr>calls := [GetSeatLayout, GetSeatLayout]\<rparr>)
   \<and> result_queue (idle_world\<lparr>calls := [GetSeatLayout, GetSeatLayout]\<rparr>) = []
   \<and> book_ticket 3 unauthorized_envs 2 finalize_ok idle_world = BlockedOnQueueGet"
  by code_simp

section \<open>The outer retry loop\<close>

lemma retry_loop_bound:
  "retry_loop races m a logs = (e, a', logs') \<Longrightarrow> a \<le> a' \<and> a' \<le> max a m"
proof (induction races m a logs rule: retry_loop.induct)
  case (1 races m a logs)
  show ?case
  proof (cases "a < m")
    case False
    with "1.prems" show ?thesis by (simp add: retry_loop.simps [of races m a logs])
  next
    case True
    show ?thesis
    proof (cases "races (a + 1)")
      case (Returns b)
      show ?thesis
      proof (cases b)
        case True
        with Returns \<open>a < m\<close> "1.prems" show ?thesis
          by (simp add: retry_loop.simps [of races m a logs])
      next
        case False
        with Returns \<open>a < m\<close> "1.prems"
        have "retry_loop races m (a + 1) (logs @ [Warning_attempt_failed (a + 1)])
                = (e, a', logs')"
          by (simp add: retry_loop.simps [of races m a logs])
        with "1.IH" [OF \<open>a < m\<close> Returns False] have "a + 1 \<le> a' \<and> a' \<le> max (a + 1) m"
          by simp
        with \<open>a < m\<close> show ?thesis by simp
      qed
    next
      case Raises
      with True "1.prems" show ?thesis by (simp add: retry_loop.simps [of races m a logs])
    next
      case Blocks
      with True "1.prems" show ?thesis by (simp add: retry_loop.simps [of races m a logs])
    qed
  qed
qed

lemma retry_loop_all_fail:
  "(\<forall>k. a < k \<and> k \<le> m \<longrightarrow> races k = Returns False) \<Longrightarrow>
   retry_loop races m a logs
     = (Completed, max a m, logs @ map Warning_attempt_failed [a + 1 .. m])"
proof (induction races m a logs rule: retry_loop.induct)
  case (1 races m a logs)
  show ?case
  proof (cases "a < m")
    case False
    then show ?thesis by (simp add: retry_loop.simps [of races m a logs])
  next
    case True
    then have r: "races (a + 1) = Returns False"
      using "1.prems" by simp
    have rest: "\<forall>k. a + 1 < k \<and> k \<le> m \<longrightarrow> races k = Returns False"
      using "1.prems" by simp
    have ih: "retry_loop races m (a + 1) (logs @ [Warning_attempt_failed (a + 1)])
                = (Completed, max (a + 1) m,
                   (logs @ [Warning_attempt_failed (a + 1)])
                     @ map Warning_attempt_failed [a + 1 + 1 .. m])"
      using "1.IH" [OF True r _ rest] by simp
    have up: "[a + 1 .. m] = (a + 1) # [a + 1 + 1 .. m]"
      using True by (simp add: upto_rec1)
    show ?thesis
      using True r ih up by (simp add: retry_loop.simps [of races m a logs])
  qed
qed

text \<open>
  Claim C8. For every configured bound, the loop runs at most that many races (none when
  the bound is not positive): the attempt counter it ends with never exceeds the bound.
  When each of the races up to the bound returns \<^verbatim>\<open>False\<close>, the loop ends after exactly
  that many races, having logged one warning per race, and it reports the failure with
  the number of attempts instead of starting another race.
\<close>

theorem retry_loop_is_bounded:
  "fst (snd (run_with_retry races m)) \<le> max 0 m
   \<and> ((\<forall>k. 1 \<le> k \<and> k \<le> m \<longrightarrow> races k = Returns False)
        \<longrightarrow> run_with_retry races m
              = (Completed, max 0 m,
                 map Warning_attempt_failed [1 .. m] @ [Error_failed_after m]))"
proof (intro conjI impI)
  obtain e a logs where loop: "retry_loop races m 0 [] = (e, a, logs)"
    by (cases "retry_loop races m 0 []") auto
  then have "a \<le> max 0 m"
    using retry_loop_bound [of races m 0 "[]" e a logs] by simp
  moreover have "fst (snd (run_with_retry races m)) = a"
    using loop by (cases e) (simp_all add: run_with_retry_def)
  ultimately show "fst (snd (run_with_retry races m)) \<le> max 0 m" by simp
next
  assume "\<forall>k. 1 \<le> k \<and> k \<le> m \<longrightarrow> races k = Returns False"
  then have "\<forall>k. 0 < k \<and> k \<le> m \<longrightarrow> races k = Returns False"
    by auto
  then have "retry_loop races m 0 []
               = (Completed, max 0 m, [] @ map Warning_attempt_failed [0 + 1 .. m])"
    by (rule retry_loop_all_fail)
  then show "run_with_retry races m
               = (Completed, max 0 m,
                  map Warning_attempt_failed [1 .. m] @ [Error_failed_after m])"
    by (simp add: run_with_retry_def)
qed

text \<open>With the default bound of 3 and races that all fail: three races, then the report.\<close>

theorem retry_loop_is_bounded_witness:
  "always_fails 1 = Returns False \<and> always_fails 2 = Returns False
   \<and> always_fails 3 = Returns False
   \<and> fst (snd (run_with_retry always_fails default_max_retry_attempts)) \<le> 3
   \<and> run_with_retry always_fails default_max_retry_attempts
       = (Completed, 3,
          [Warning_attempt_failed 1, Warning_attempt_failed 2, Warning_attempt_failed 3,
           Error_failed_after 3])"
proof -
  have f: "\<forall>k. 1 \<le> k \<and> k \<le> default_max_retry_attempts \<longrightarrow> always_fails k = Returns False"
    by (simp add: always_fails_def)
  have m: "max 0 default_max_retry_attempts = 3"
    by (simp add: default_max_retry_attempts_def)
  have u: "[1 .. default_max_retry_attempts] = [1, 2, 3]"
    by (simp add: default_max_retry_attempts_def upto_rec1)
  have d: "default_max_retry_attempts = 3"
    by (simp add: default_max_retry_attempts_def)
  have "run_with_retry always_fails default_max_retry_attempts
          = (Completed, 3,
             [Warning_attempt_failed 1, Warning_attempt_failed 2, Warning_attempt_failed 3,
              Error_failed_after 3])"
    using retry_loop_is_bounded [of always_fails default_max_retry_attempts] f m u d by simp
  moreover have "fst (snd (run_with_retry always_fails default_max_retry_attempts)) \<le> 3"
    using retry_loop_is_bounded [of always_fails default_max_retry_attempts] m by simp
  ultimately show ?thesis
    by (simp add: always_fails_def)
qed

end
